theory Spec2Isabelle
  imports Main "HOL-Library.AList"
begin

section \<open>Files, directory listings and content probes\<close>

text \<open>
  The scripts only ever look at the top level of a mounted partition: the names returned
  by \<^verbatim>\<open>mnt.iterdir()\<close>, whether an entry is a regular file, its \<^verbatim>\<open>st_size\<close>, and
  what \<^verbatim>\<open>file -b\<close> prints for it. A regular file is therefore a record of exactly
  these observations plus a token \<open>content\<close> that stands for its bytes (the model never
  looks inside); a directory is a nested listing. A listing is an
  association list in \<^verbatim>\<open>iterdir()\<close> order. Names are single path components, as at
  every call site (\<^verbatim>\<open>"rootfs-A.img"\<close>, \<^verbatim>\<open>"var-A.img"\<close>, \<^verbatim>\<open>"home.img"\<close>, ...); symbolic links
  and device nodes are outside the model.
\<close>

record fdata =
  st_size :: int
  file_b :: "string option"
  content :: string

datatype node = File fdata | Dir "(string \<times> node) list"

type_synonym listing = "(string \<times> node) list"

text \<open>Python's \<^verbatim>\<open>str.lower()\<close> on the ASCII letters.\<close>

definition lower_char :: "char \<Rightarrow> char" where
  "lower_char c =
     (case map_of (zip ''ABCDEFGHIJKLMNOPQRSTUVWXYZ'' ''abcdefghijklmnopqrstuvwxyz'') c of
        Some d \<Rightarrow> d
      | None \<Rightarrow> c)"

definition lower :: "string \<Rightarrow> string" where
  "lower s = map lower_char s"

text \<open>\<^verbatim>\<open>needle in haystack\<close> on Python strings.\<close>

fun contains :: "string \<Rightarrow> string \<Rightarrow> bool" where
  "contains needle [] = (needle = [])"
| "contains needle (c # cs) =
     (take (length needle) (c # cs) = needle \<or> contains needle cs)"

text \<open>
  \<^verbatim>\<open>is_squashfs\<close> and \<^verbatim>\<open>is_ext_image\<close> run \<^verbatim>\<open>file -b\<close>, lower-case the output and look
  for a substring; any exception of the probe (no output, \<open>None\<close>) gives \<^verbatim>\<open>False\<close>.
\<close>

definition squashfs_in :: "string option \<Rightarrow> bool" where
  "squashfs_in out =
     (case out of
        None \<Rightarrow> False
      | Some txt \<Rightarrow> contains ''squashfs'' (lower txt))"

definition ext_in :: "string option \<Rightarrow> bool" where
  "ext_in out =
     (case out of
        None \<Rightarrow> False
      | Some txt \<Rightarrow> list_ex (\<lambda>t. contains t (lower txt)) [''ext2'', ''ext3'', ''ext4''])"

definition is_squashfs :: "fdata \<Rightarrow> bool" where
  "is_squashfs f = squashfs_in (file_b f)"

definition is_ext_image :: "fdata \<Rightarrow> bool" where
  "is_ext_image f = ext_in (file_b f)"

section \<open>Candidate selection\<close>

text \<open>
  The loop \<^verbatim>\<open>for nm in names: cand = mnt / nm; if cand.exists() and cand.is_file(): ...\<close>
  shared by \<^verbatim>\<open>detect_existing_inner\<close> and \<^verbatim>\<open>replace_nested_image_in_partition\<close>: the first
  name of the list that is a regular file of the listing.
\<close>

fun first_preferred :: "listing \<Rightarrow> string list \<Rightarrow> (string \<times> fdata) option" where
  "first_preferred es [] = None"
| "first_preferred es (nm # nms) =
     (case map_of es nm of
        Some (File f) \<Rightarrow> Some (nm, f)
      | _ \<Rightarrow> first_preferred es nms)"

text \<open>\<^verbatim>\<open>[p for p in mnt.iterdir() if p.is_file()]\<close>\<close>

fun regular_files :: "listing \<Rightarrow> (string \<times> fdata) list" where
  "regular_files [] = []"
| "regular_files ((nm, File f) # es) = (nm, f) # regular_files es"
| "regular_files ((nm, Dir d) # es) = regular_files es"

text \<open>
  \<^verbatim>\<open>max(files, key=lambda p: p.stat().st_size)\<close>: Python's \<^verbatim>\<open>max\<close> keeps the first
  element among those of maximal key, replacing the running best only on a strictly
  larger key.
\<close>

fun max_by_size :: "(string \<times> fdata) \<Rightarrow> (string \<times> fdata) list \<Rightarrow> (string \<times> fdata)" where
  "max_by_size best [] = best"
| "max_by_size best (p # ps) =
     max_by_size (if st_size (snd best) < st_size (snd p) then p else best) ps"

text \<open>
  The body of \<^verbatim>\<open>detect_existing_inner\<close> on the mounted listing: the pair
  \<^verbatim>\<open>(path, is_squashfs)\<close>, or \<^verbatim>\<open>(None, False)\<close>.
\<close>

definition detect_in_listing :: "listing \<Rightarrow> string list \<Rightarrow> string option \<times> bool" where
  "detect_in_listing es preferred_names =
     (case first_preferred es preferred_names of
        Some (nm, f) \<Rightarrow> (Some nm, is_squashfs f)
      | None \<Rightarrow>
          (case regular_files es of
             [] \<Rightarrow> (None, False)
           | p # ps \<Rightarrow>
               (let cand = max_by_size p ps in
                if is_squashfs (snd cand) \<or> is_ext_image (snd cand)
                then (Some (fst cand), is_squashfs (snd cand))
                else (None, False))))"

text \<open>
  The partition shape of the specification, as \<^verbatim>\<open>repack\<close> reads the returned pair: a
  path with the flag set is rebuilt as squashfs, a path without it as an ext image, and
  no path means that the partition itself is wiped and refilled.
\<close>

datatype shape = NestedSquashfs string | NestedExtImage string | DirectFilesystem

fun shape_of :: "string option \<times> bool \<Rightarrow> shape" where
  "shape_of (Some p, True) = NestedSquashfs p"
| "shape_of (Some p, False) = NestedExtImage p"
| "shape_of (None, sq) = DirectFilesystem"

datatype exn =
    IndexError
  | ValueError
  | RuntimeError string
  | FileNotFoundError string
  | SameFileError
  | OSError string
  | CalledProcessError string

text \<open>
  The target resolution of \<^verbatim>\<open>replace_nested_image_in_partition\<close>: preferred names, else
  the largest regular file, else \<^verbatim>\<open>name_candidates[0]\<close>, which raises \<^verbatim>\<open>IndexError\<close> on an
  empty list.
\<close>

definition resolve_target :: "listing \<Rightarrow> string list \<Rightarrow> exn + string" where
  "resolve_target es name_candidates =
     (case first_preferred es name_candidates of
        Some (nm, f) \<Rightarrow> Inr nm
      | None \<Rightarrow>
          (case regular_files es of
             p # ps \<Rightarrow> Inr (fst (max_by_size p ps))
           | [] \<Rightarrow>
               (case name_candidates of
                  [] \<Rightarrow> Inl IndexError
                | nm # nms \<Rightarrow> Inr nm)))"

section \<open>Sizing of a rebuilt ext4 image\<close>

definition MiB :: int where
  "MiB = 1048576"

definition round_up :: "int \<Rightarrow> int \<Rightarrow> int" where
  "round_up n block = ((n + block - 1) div block) * block"

text \<open>
  The three assignments to \<^verbatim>\<open>size\<close> in \<^verbatim>\<open>build_ext4_image\<close>; \<^verbatim>\<open>64 << 20\<close> is
  \<open>64 * MiB\<close>, and Python's \<^verbatim>\<open>//\<close> is the floor division that \<open>div\<close> is on \<open>int\<close>.
\<close>

definition ext4_image_size :: "int \<Rightarrow> int" where
  "ext4_image_size data =
     (let size = data + data div 6 + 64 * MiB;
          size = max size (256 * MiB)
      in round_up size (64 * MiB))"

section \<open>Temporary names\<close>

text \<open>
  \<^verbatim>\<open>PurePath.suffix\<close> and \<^verbatim>\<open>PurePath.with_suffix\<close> on the final path component, as
  \<^verbatim>\<open>pathlib\<close> defines them; every temporary name of the scripts is
  \<^verbatim>\<open>p.with_suffix(p.suffix + ".tmp")\<close>.
\<close>

definition rfind_dot :: "string \<Rightarrow> nat option" where
  "rfind_dot name =
     (case filter (\<lambda>i. name ! i = CHR ''.'') (rev [0..<length name]) of
        [] \<Rightarrow> None
      | i # js \<Rightarrow> Some i)"

definition suffix_of :: "string \<Rightarrow> string" where
  "suffix_of name =
     (case rfind_dot name of
        None \<Rightarrow> []
      | Some i \<Rightarrow> if 0 < i \<and> i < length name - 1 then drop i name else [])"

definition with_suffix :: "string \<Rightarrow> string \<Rightarrow> exn + string" where
  "with_suffix name sfx =
     (if CHR ''/'' \<in> set sfx \<or> (sfx \<noteq> [] \<and> hd sfx \<noteq> CHR ''.'') \<or> sfx = ''.''
      then Inl ValueError
      else if name = [] then Inl ValueError
      else (let old_suffix = suffix_of name
            in if old_suffix = [] then Inr (name @ sfx)
               else Inr (take (length name - length old_suffix) name @ sfx)))"

definition tmp_name :: "string \<Rightarrow> exn + string" where
  "tmp_name name = with_suffix name (suffix_of name @ ''.tmp'')"

definition joinpath :: "string \<Rightarrow> string \<Rightarrow> string" where
  "joinpath dir name = dir @ ''/'' @ name"

section \<open>The world outside the process\<close>

text \<open>
  A disk image is its partitions by position, each a top-level listing. The world holds
  the image files by path, the loop devices with their backing files, the mount table,
  the files of the private build directory (\<^verbatim>\<open>workdir / "build"\<close>) by name, the trace of
  every external step with its outcome, and what was printed.
\<close>

type_synonym image = "nat \<Rightarrow> listing option"

datatype dev = Part string nat

datatype msrc = Device dev | LoopFile string

datatype action =
    Mkdtemp string
  | Mount msrc string
  | Umount string
  | Rmtree string
  | Unlink string
  | Statvfs string
  | Copy2 string string
  | OsReplace string string
  | Rename string string
  | Truncate string int
  | Du
  | Mksquashfs string
  | MkfsExt4 string string
  | Tune2fs string
  | Rsync string
  | Sync
  | LosetupAttach string
  | LosetupDetach string

record world =
  images :: "string \<Rightarrow> image option"
  loopdevs :: "string \<Rightarrow> string option"
  mounted :: "string \<Rightarrow> msrc option"
  scratch :: "string \<Rightarrow> fdata option"
  trace :: "(action \<times> bool) list"
  log :: "string list"

text \<open>
  The external tools are black boxes. \<open>fails\<close> decides, from the trace so far, whether
  a step fails (so any pattern of failures is some \<open>ext\<close>); the other fields are what
  the tools report or leave behind: the free bytes \<^verbatim>\<open>statvfs\<close> reports for a file
  system, what \<^verbatim>\<open>du -sb\<close> prints, the image \<^verbatim>\<open>mksquashfs\<close> writes, the bytes after
  \<^verbatim>\<open>mkfs.ext4\<close> and after the populating \<^verbatim>\<open>rsync\<close>, what \<^verbatim>\<open>rsync\<close> makes of an entry
  that exists on both sides, and what an interrupted copy, \<^verbatim>\<open>rsync\<close> or recursive delete
  leaves behind.
\<close>

record ext =
  fails :: "(action \<times> bool) list \<Rightarrow> action \<Rightarrow> bool"
  statvfs_free :: "listing \<Rightarrow> int"
  du_sb :: "node \<Rightarrow> int"
  squashfs_of :: "node \<Rightarrow> fdata"
  mkfs_content :: "int \<Rightarrow> string \<Rightarrow> string"
  tuned :: "string \<Rightarrow> string"
  populated :: "string \<Rightarrow> node \<Rightarrow> string"
  emptied :: "string \<Rightarrow> string"
  rsync_onto :: "node \<Rightarrow> node \<Rightarrow> node"
  rsync_partial :: "listing \<Rightarrow> listing \<Rightarrow> listing"
  torn :: "fdata \<Rightarrow> fdata option"
  torn_image :: "image \<Rightarrow> image option"
  leftover :: "listing \<Rightarrow> listing"
  dir_st_size :: "listing \<Rightarrow> int"
  losetup_show :: string

text \<open>
  One external step: it succeeds when it is possible in the current world and the
  environment does not make it fail; either way it is appended to the trace.
\<close>

definition attempt :: "ext \<Rightarrow> action \<Rightarrow> bool \<Rightarrow> world \<Rightarrow> bool \<times> world" where
  "attempt X a possible w =
     (let ok = (possible \<and> \<not> fails X (trace w) a)
      in (ok, w\<lparr>trace := trace w @ [(a, ok)]\<rparr>))"

definition new_events :: "world \<Rightarrow> world \<Rightarrow> (action \<times> bool) list" where
  "new_events w w' = drop (length (trace w)) (trace w')"

definition say :: "string \<Rightarrow> world \<Rightarrow> world" where
  "say msg w = w\<lparr>log := log w @ [msg]\<rparr>"

definition part_of :: "world \<Rightarrow> dev \<Rightarrow> listing option" where
  "part_of w d =
     (case d of Part l k \<Rightarrow>
        (case loopdevs w l of
           None \<Rightarrow> None
         | Some path \<Rightarrow>
             (case images w path of
                None \<Rightarrow> None
              | Some img \<Rightarrow> img k)))"

definition listing_of :: "world \<Rightarrow> dev \<Rightarrow> listing" where
  "listing_of w d = (case part_of w d of None \<Rightarrow> [] | Some es \<Rightarrow> es)"

definition set_part :: "world \<Rightarrow> dev \<Rightarrow> listing \<Rightarrow> world" where
  "set_part w d es =
     (case d of Part l k \<Rightarrow>
        (case loopdevs w l of
           None \<Rightarrow> w
         | Some path \<Rightarrow>
             (case images w path of
                None \<Rightarrow> w
              | Some img \<Rightarrow> w\<lparr>images := (images w)(path \<mapsto> img(k \<mapsto> es))\<rparr>)))"

text \<open>
  \<^verbatim>\<open>tempfile.mkdtemp(prefix=...)\<close>; the random part of the name is left out, the prefix
  stands for the directory.
\<close>

definition mkdtemp :: "ext \<Rightarrow> string \<Rightarrow> world \<Rightarrow> (exn + string) \<times> world" where
  "mkdtemp X prefix w =
     (case attempt X (Mkdtemp prefix) True w of
        (ok, w1) \<Rightarrow> if ok then (Inr prefix, w1) else (Inl (OSError ''mkdtemp''), w1))"

text \<open>
  \<^verbatim>\<open>mount_rw\<close>: \<^verbatim>\<open>sh(["mount", "-o", opts, src, target])\<close> with \<^verbatim>\<open>check=True\<close>, so a non-zero
  exit raises \<^verbatim>\<open>CalledProcessError\<close>. The source is a partition of an attached loop
  device, or (\<^verbatim>\<open>loop=True\<close>) an image file of the build directory.
\<close>

definition mountable :: "world \<Rightarrow> msrc \<Rightarrow> bool" where
  "mountable w src =
     (case src of
        Device d \<Rightarrow> part_of w d \<noteq> None
      | LoopFile p \<Rightarrow> scratch w p \<noteq> None)"

definition mount_rw :: "ext \<Rightarrow> msrc \<Rightarrow> string \<Rightarrow> world \<Rightarrow> (exn + unit) \<times> world" where
  "mount_rw X src target w =
     (case attempt X (Mount src target) (mountable w src) w of
        (ok, w1) \<Rightarrow>
          if ok then (Inr (), w1\<lparr>mounted := (mounted w1)(target \<mapsto> src)\<rparr>)
          else (Inl (CalledProcessError ''mount''), w1))"

text \<open>\<^verbatim>\<open>umount\<close>: \<^verbatim>\<open>subprocess.run(["umount", target], check=False)\<close>; a failure is ignored.\<close>

definition umount :: "ext \<Rightarrow> string \<Rightarrow> world \<Rightarrow> world" where
  "umount X target w =
     (case attempt X (Umount target) (mounted w target \<noteq> None) w of
        (ok, w1) \<Rightarrow> if ok then w1\<lparr>mounted := (mounted w1)(target := None)\<rparr> else w1)"

text \<open>
  The \<^verbatim>\<open>finally\<close> block of every helper: \<^verbatim>\<open>umount(mnt)\<close>, then
  \<^verbatim>\<open>shutil.rmtree(mnt, ignore_errors=True)\<close>. \<open>held\<close> is what the helper has mounted on
  its fresh directory (\<open>None\<close> when its mount failed). When the unmount does not take
  effect the directory is still a mounted, writable file system, and the recursive delete
  walks into it: it empties what is mounted there, or leaves part of it when it hits
  errors.
\<close>

definition umount_ok :: "ext \<Rightarrow> string \<Rightarrow> world \<Rightarrow> bool" where
  "umount_ok X target w = fst (attempt X (Umount target) (mounted w target \<noteq> None) w)"

definition rmtree_mounted :: "ext \<Rightarrow> msrc \<Rightarrow> bool \<Rightarrow> world \<Rightarrow> world" where
  "rmtree_mounted X src ok w =
     (case src of
        Device d \<Rightarrow> set_part w d (if ok then [] else leftover X (listing_of w d))
      | LoopFile p \<Rightarrow>
          (case scratch w p of
             None \<Rightarrow> w
           | Some f \<Rightarrow> w\<lparr>scratch := (scratch w)(p \<mapsto> f\<lparr>content := emptied X (content f)\<rparr>)\<rparr>))"

definition release_mount :: "ext \<Rightarrow> string \<Rightarrow> msrc option \<Rightarrow> world \<Rightarrow> world" where
  "release_mount X mnt held w =
     (case attempt X (Rmtree mnt) True (umount X mnt w) of
        (ok, w2) \<Rightarrow>
          (case held of
             None \<Rightarrow> w2
           | Some src \<Rightarrow> if umount_ok X mnt w then w2 else rmtree_mounted X src ok w2))"

section \<open>Detection\<close>

text \<open>
  \<^verbatim>\<open>detect_existing_inner\<close>: a fresh mount directory, the partition mounted (read-write,
  "just for simplicity"), the selection of \<open>detect_in_listing\<close> on what is mounted,
  and the \<^verbatim>\<open>finally\<close> block.
\<close>

definition detect_existing_inner ::
  "ext \<Rightarrow> dev \<Rightarrow> string list \<Rightarrow> world \<Rightarrow> (exn + string option \<times> bool) \<times> world" where
  "detect_existing_inner X part_dev preferred_names w =
     (case mkdtemp X ''detmnt_'' w of
        (Inl e, w1) \<Rightarrow> (Inl e, w1)
      | (Inr mnt, w1) \<Rightarrow>
          (case mount_rw X (Device part_dev) mnt w1 of
             (Inl e, w2) \<Rightarrow> (Inl e, release_mount X mnt None w2)
           | (Inr u, w2) \<Rightarrow>
               (Inr (detect_in_listing (listing_of w2 part_dev) preferred_names),
                release_mount X mnt (Some (Device part_dev)) w2)))"

section \<open>Replacing a nested image\<close>

definition node_st_size :: "ext \<Rightarrow> node \<Rightarrow> int" where
  "node_st_size X n = (case n of File f \<Rightarrow> st_size f | Dir es \<Rightarrow> dir_st_size X es)"

text \<open>
  The body of the \<^verbatim>\<open>try\<close> under "Ensure enough free space": \<^verbatim>\<open>os.statvfs(mnt)\<close>,
  \<^verbatim>\<open>new_inner.stat()\<close> and the \<^verbatim>\<open>raise RuntimeError\<close> all stand inside it.
\<close>

definition check_free_space ::
  "ext \<Rightarrow> listing \<Rightarrow> string \<Rightarrow> string \<Rightarrow> string \<Rightarrow> world \<Rightarrow> (exn + unit) \<times> world" where
  "check_free_space X es mnt target new_inner w =
     (case attempt X (Statvfs mnt) True w of
        (ok, w1) \<Rightarrow>
          if \<not> ok then (Inl (OSError ''statvfs''), w1)
          else (case scratch w1 new_inner of
                  None \<Rightarrow> (Inl (FileNotFoundError new_inner), w1)
                | Some new \<Rightarrow>
                    (let free_bytes = statvfs_free X es;
                         need = st_size new
                     in if need > free_bytes +
                             (case map_of es target of
                                Some n \<Rightarrow> node_st_size X n
                              | None \<Rightarrow> 0)
                        then (Inl (RuntimeError ''Not enough free space''), w1)
                        else (Inr (), w1))))"

text \<open>\<^verbatim>\<open>if tmp.exists(): tmp.unlink()\<close>; unlinking a directory raises.\<close>

definition unlink_stale ::
  "ext \<Rightarrow> string \<Rightarrow> string \<Rightarrow> listing \<Rightarrow> world \<Rightarrow> (exn + unit) \<times> listing \<times> world" where
  "unlink_stale X mnt tmp es w =
     (case map_of es tmp of
        None \<Rightarrow> (Inr (), es, w)
      | Some n \<Rightarrow>
          (case attempt X (Unlink (joinpath mnt tmp)) (case n of File f \<Rightarrow> True | Dir d \<Rightarrow> False) w of
             (ok, w1) \<Rightarrow>
               if ok then (Inr (), AList.delete tmp es, w1)
               else (Inl (OSError ''unlink''), es, w1)))"

text \<open>
  \<^verbatim>\<open>shutil.copy2(new_inner, tmp)\<close>: on success \<open>tmp\<close> holds the artifact; on failure it
  holds whatever the interrupted copy wrote, if anything.
\<close>

definition copy_in ::
  "ext \<Rightarrow> string \<Rightarrow> string \<Rightarrow> string \<Rightarrow> listing \<Rightarrow> world \<Rightarrow> (exn + unit) \<times> listing \<times> world" where
  "copy_in X mnt new_inner tmp es w =
     (case attempt X (Copy2 new_inner (joinpath mnt tmp)) (scratch w new_inner \<noteq> None) w of
        (ok, w1) \<Rightarrow>
          (case scratch w1 new_inner of
             None \<Rightarrow> (Inl (FileNotFoundError new_inner), es, w1)
           | Some new \<Rightarrow>
               if ok then (Inr (), AList.update tmp (File new) es, w1)
               else (Inl (OSError ''copy2''),
                     (case torn X new of
                        None \<Rightarrow> es
                      | Some part \<Rightarrow> AList.update tmp (File part) es),
                     w1)))"

text \<open>
  \<^verbatim>\<open>os.replace(tmp, target_path)\<close>: one atomic rename; it cannot put a file in the
  place of a directory.
\<close>

definition os_replace ::
  "ext \<Rightarrow> string \<Rightarrow> string \<Rightarrow> string \<Rightarrow> listing \<Rightarrow> world \<Rightarrow> (exn + unit) \<times> listing \<times> world" where
  "os_replace X mnt tmp target es w =
     (case map_of es tmp of
        None \<Rightarrow> (Inl (FileNotFoundError tmp), es, snd (attempt X (OsReplace (joinpath mnt tmp) (joinpath mnt target)) False w))
      | Some n \<Rightarrow>
          (case attempt X (OsReplace (joinpath mnt tmp) (joinpath mnt target))
                  (case map_of es target of Some (Dir d) \<Rightarrow> False | _ \<Rightarrow> True) w of
             (ok, w1) \<Rightarrow>
               if ok then (Inr (), AList.update target n (AList.delete tmp es), w1)
               else (Inl (OSError ''replace''), es, w1)))"

text \<open>
  What \<^verbatim>\<open>replace_nested_image_in_partition\<close> does between the mount and the
  \<^verbatim>\<open>finally\<close> block, on the mounted listing. The outcome of the space check is dropped:
  \<^verbatim>\<open>except Exception: pass\<close> encloses the \<^verbatim>\<open>raise\<close> as well.
\<close>

definition place_nested ::
  "ext \<Rightarrow> string \<Rightarrow> string list \<Rightarrow> string \<Rightarrow> listing \<Rightarrow> world \<Rightarrow> (exn + unit) \<times> listing \<times> world" where
  "place_nested X mnt name_candidates new_inner es w =
     (case resolve_target es name_candidates of
        Inl e \<Rightarrow> (Inl e, es, w)
      | Inr target \<Rightarrow>
          (case check_free_space X es mnt target new_inner w of
             (space, w1) \<Rightarrow>
               (case tmp_name target of
                  Inl e \<Rightarrow> (Inl e, es, w1)
                | Inr tmp \<Rightarrow>
                    (case unlink_stale X mnt tmp es w1 of
                       (Inl e, es2, w2) \<Rightarrow> (Inl e, es2, w2)
                     | (Inr u2, es2, w2) \<Rightarrow>
                         (case copy_in X mnt new_inner tmp es2 w2 of
                            (Inl e, es3, w3) \<Rightarrow> (Inl e, es3, w3)
                          | (Inr u3, es3, w3) \<Rightarrow>
                              (case os_replace X mnt tmp target es3 w3 of
                                 (Inl e, es4, w4) \<Rightarrow> (Inl e, es4, w4)
                               | (Inr u4, es4, w4) \<Rightarrow>
                                   (Inr (), es4, snd (attempt X Sync True w4))))))))"

definition replace_nested_image_in_partition ::
  "ext \<Rightarrow> dev \<Rightarrow> string list \<Rightarrow> string \<Rightarrow> world \<Rightarrow> (exn + unit) \<times> world" where
  "replace_nested_image_in_partition X part_dev name_candidates new_inner w =
     (case mkdtemp X ''partmnt_'' w of
        (Inl e, w1) \<Rightarrow> (Inl e, w1)
      | (Inr mnt, w1) \<Rightarrow>
          (case mount_rw X (Device part_dev) mnt w1 of
             (Inl e, w2) \<Rightarrow> (Inl e, release_mount X mnt None w2)
           | (Inr u, w2) \<Rightarrow>
               (case place_nested X mnt name_candidates new_inner (listing_of w2 part_dev) w2 of
                  (r, es', w3) \<Rightarrow>
                    (r, release_mount X mnt (Some (Device part_dev)) (set_part w3 part_dev es')))))"

section \<open>Wiping and refilling a direct file system\<close>

text \<open>
  The loop over \<^verbatim>\<open>mnt.iterdir()\<close>: \<^verbatim>\<open>lost+found\<close> is skipped; a directory goes through
  \<^verbatim>\<open>shutil.rmtree(child, ignore_errors=True)\<close>, anything else through \<^verbatim>\<open>child.unlink()\<close>
  inside \<^verbatim>\<open>try ... except Exception: pass\<close>. A removal that fails is not reported; the
  entry stays (a directory possibly with part of its content gone).
\<close>

fun wipe_children :: "ext \<Rightarrow> string \<Rightarrow> listing \<Rightarrow> listing \<Rightarrow> world \<Rightarrow> listing \<times> world" where
  "wipe_children X mnt [] es w = (es, w)"
| "wipe_children X mnt ((nm, child) # rest) es w =
     (if nm = ''lost+found'' then wipe_children X mnt rest es w
      else (case child of
              Dir sub \<Rightarrow>
                (case attempt X (Rmtree (joinpath mnt nm)) True w of
                   (ok, w1) \<Rightarrow>
                     wipe_children X mnt rest
                       (if ok then AList.delete nm es
                        else AList.update nm (Dir (leftover X sub)) es) w1)
            | File f \<Rightarrow>
                (case attempt X (Unlink (joinpath mnt nm)) True w of
                   (ok, w1) \<Rightarrow>
                     wipe_children X mnt rest (if ok then AList.delete nm es else es) w1)))"

text \<open>
  \<^verbatim>\<open>rsync -aAXH --numeric-ids src/ mnt/\<close> into a listing: every entry of the source
  arrives under its name; where the name exists already, \<^verbatim>\<open>rsync\<close> decides what results.
\<close>

definition rsync_entry :: "ext \<Rightarrow> string \<times> node \<Rightarrow> listing \<Rightarrow> listing" where
  "rsync_entry X e dst =
     AList.update (fst e)
       (case map_of dst (fst e) of
          None \<Rightarrow> snd e
        | Some old \<Rightarrow> rsync_onto X old (snd e)) dst"

definition rsync_into :: "ext \<Rightarrow> listing \<Rightarrow> listing \<Rightarrow> listing" where
  "rsync_into X src dst = fold (rsync_entry X) src dst"

definition fill_direct ::
  "ext \<Rightarrow> string \<Rightarrow> node \<Rightarrow> listing \<Rightarrow> world \<Rightarrow> (exn + unit) \<times> listing \<times> world" where
  "fill_direct X mnt src_dir es w =
     (case wipe_children X mnt es es w of
        (es1, w1) \<Rightarrow>
          (case src_dir of
             File f \<Rightarrow>
               (Inl (CalledProcessError ''rsync''), es1, snd (attempt X (Rsync mnt) False w1))
           | Dir src \<Rightarrow>
               (case attempt X (Rsync mnt) True w1 of
                  (ok, w2) \<Rightarrow>
                    if ok then (Inr (), rsync_into X src es1, snd (attempt X Sync True w2))
                    else (Inl (CalledProcessError ''rsync''), rsync_partial X src es1, w2))))"

definition wipe_and_fill_partition_direct ::
  "ext \<Rightarrow> dev \<Rightarrow> node \<Rightarrow> world \<Rightarrow> (exn + unit) \<times> world" where
  "wipe_and_fill_partition_direct X part_dev src_dir w =
     (case mkdtemp X ''partmnt_'' w of
        (Inl e, w1) \<Rightarrow> (Inl e, w1)
      | (Inr mnt, w1) \<Rightarrow>
          (case mount_rw X (Device part_dev) mnt w1 of
             (Inl e, w2) \<Rightarrow> (Inl e, release_mount X mnt None w2)
           | (Inr u, w2) \<Rightarrow>
               (case fill_direct X mnt src_dir (listing_of w2 part_dev) w2 of
                  (r, es', w3) \<Rightarrow>
                    (r, release_mount X mnt (Some (Device part_dev)) (set_part w3 part_dev es')))))"

section \<open>Building images\<close>

text \<open>
  \<^verbatim>\<open>du_bytes\<close>: \<^verbatim>\<open>du -sb\<close>, and on any exception the sum of \<^verbatim>\<open>st_size\<close> over the files
  that \<^verbatim>\<open>os.walk\<close> finds (nothing, when the path is not a directory).
\<close>

fun tree_bytes :: "node \<Rightarrow> int" where
  "tree_bytes (File f) = st_size f"
| "tree_bytes (Dir es) = sum_list (map (\<lambda>e. tree_bytes (snd e)) es)"

definition walk_size :: "node \<Rightarrow> int" where
  "walk_size src = (case src of File f \<Rightarrow> 0 | Dir es \<Rightarrow> tree_bytes (Dir es))"

definition du_bytes :: "ext \<Rightarrow> node \<Rightarrow> world \<Rightarrow> int \<times> world" where
  "du_bytes X src w =
     (case attempt X Du True w of
        (ok, w1) \<Rightarrow> (if ok then du_sb X src else walk_size src, w1))"

text \<open>\<^verbatim>\<open>if tmp.exists(): tmp.unlink()\<close> and \<^verbatim>\<open>tmp.rename(out_file)\<close> in the build directory.\<close>

definition unlink_scratch :: "ext \<Rightarrow> string \<Rightarrow> world \<Rightarrow> (exn + unit) \<times> world" where
  "unlink_scratch X tmp w =
     (case scratch w tmp of
        None \<Rightarrow> (Inr (), w)
      | Some f \<Rightarrow>
          (case attempt X (Unlink tmp) True w of
             (ok, w1) \<Rightarrow>
               if ok then (Inr (), w1\<lparr>scratch := (scratch w1)(tmp := None)\<rparr>)
               else (Inl (OSError ''unlink''), w1)))"

definition rename_scratch :: "ext \<Rightarrow> string \<Rightarrow> string \<Rightarrow> world \<Rightarrow> (exn + unit) \<times> world" where
  "rename_scratch X tmp out_file w =
     (case attempt X (Rename tmp out_file) (scratch w tmp \<noteq> None) w of
        (ok, w1) \<Rightarrow>
          if ok then (Inr (), w1\<lparr>scratch := (scratch w1)(tmp := None, out_file := scratch w1 tmp)\<rparr>)
          else (Inl (OSError ''rename''), w1))"

text \<open>
  \<^verbatim>\<open>build_squashfs\<close>: the compressor writes to the temporary name (\<^verbatim>\<open>check=True\<close>); the
  rename is the last statement.
\<close>

definition build_squashfs :: "ext \<Rightarrow> node \<Rightarrow> string \<Rightarrow> world \<Rightarrow> (exn + unit) \<times> world" where
  "build_squashfs X src_dir out_file w =
     (case tmp_name out_file of
        Inl e \<Rightarrow> (Inl e, w)
      | Inr tmp \<Rightarrow>
          (case unlink_scratch X tmp w of
             (Inl e, w1) \<Rightarrow> (Inl e, w1)
           | (Inr u, w1) \<Rightarrow>
               (case attempt X (Mksquashfs tmp) True w1 of
                  (ok, w2) \<Rightarrow>
                    if ok
                    then rename_scratch X tmp out_file
                           (w2\<lparr>scratch := (scratch w2)(tmp \<mapsto> squashfs_of X src_dir)\<rparr>)
                    else (Inl (CalledProcessError ''mksquashfs''),
                          w2\<lparr>scratch := (scratch w2)(tmp := torn X (squashfs_of X src_dir))\<rparr>))))"

definition sparse_file :: "int \<Rightarrow> fdata" where
  "sparse_file n = \<lparr>st_size = n, file_b = Some ''data'', content = []\<rparr>"

definition formatted :: "ext \<Rightarrow> string \<Rightarrow> fdata \<Rightarrow> fdata" where
  "formatted X label f =
     f\<lparr>file_b := Some ''Linux rev 1.0 ext4 filesystem data'',
       content := mkfs_content X (st_size f) label\<rparr>"

definition tune :: "ext \<Rightarrow> string \<Rightarrow> world \<Rightarrow> world" where
  "tune X tmp w =
     (case scratch w tmp of
        None \<Rightarrow> w
      | Some f \<Rightarrow> w\<lparr>scratch := (scratch w)(tmp \<mapsto> f\<lparr>content := tuned X (content f)\<rparr>)\<rparr>)"

text \<open>
  The \<^verbatim>\<open>rsync\<close> of \<^verbatim>\<open>build_ext4_image\<close> into the loop-mounted image (\<^verbatim>\<open>src_dir/\<close> must
  be a directory).
\<close>

definition populate :: "ext \<Rightarrow> string \<Rightarrow> string \<Rightarrow> node \<Rightarrow> world \<Rightarrow> (exn + unit) \<times> world" where
  "populate X tmp mnt src_dir w =
     (case attempt X (Rsync mnt) (case src_dir of Dir es \<Rightarrow> True | File f \<Rightarrow> False) w of
        (ok, w1) \<Rightarrow>
          (case scratch w1 tmp of
             None \<Rightarrow> (Inl (CalledProcessError ''rsync''), w1)
           | Some f \<Rightarrow>
               if ok
               then (Inr (),
                     w1\<lparr>scratch := (scratch w1)(tmp \<mapsto> f\<lparr>content := populated X (content f) src_dir\<rparr>)\<rparr>)
               else (Inl (CalledProcessError ''rsync''),
                     w1\<lparr>scratch := (scratch w1)(tmp := torn X (f\<lparr>content := populated X (content f) src_dir\<rparr>))\<rparr>)))"

text \<open>
  The stages of \<^verbatim>\<open>build_ext4_image\<close> after the sizing: \<^verbatim>\<open>f.truncate(size)\<close> on the
  temporary name; \<^verbatim>\<open>mkfs.ext4\<close> (\<^verbatim>\<open>check=True\<close>) and \<^verbatim>\<open>tune2fs -m 0\<close>
  (\<^verbatim>\<open>check=False\<close>); and the \<^verbatim>\<open>try ... finally\<close> that loop-mounts the image on a fresh
  directory and fills it.
\<close>

definition allocate :: "ext \<Rightarrow> string \<Rightarrow> int \<Rightarrow> world \<Rightarrow> (exn + unit) \<times> world" where
  "allocate X tmp n w =
     (case attempt X (Truncate tmp n) True w of
        (ok, w1) \<Rightarrow>
          if ok then (Inr (), w1\<lparr>scratch := (scratch w1)(tmp \<mapsto> sparse_file n)\<rparr>)
          else (Inl (OSError ''truncate''),
                w1\<lparr>scratch := (scratch w1)(tmp := torn X (sparse_file n))\<rparr>))"

definition make_ext4 :: "ext \<Rightarrow> string \<Rightarrow> int \<Rightarrow> string \<Rightarrow> world \<Rightarrow> (exn + unit) \<times> world" where
  "make_ext4 X tmp n label w =
     (case attempt X (MkfsExt4 tmp label) True w of
        (ok, w1) \<Rightarrow>
          if \<not> ok
          then (Inl (CalledProcessError ''mkfs.ext4''),
                w1\<lparr>scratch := (scratch w1)(tmp := torn X (formatted X label (sparse_file n)))\<rparr>)
          else (case attempt X (Tune2fs tmp) True
                       (w1\<lparr>scratch := (scratch w1)(tmp \<mapsto> formatted X label (sparse_file n))\<rparr>) of
                  (tuned_ok, w2) \<Rightarrow> (Inr (), if tuned_ok then tune X tmp w2 else w2)))"

definition fill_image :: "ext \<Rightarrow> string \<Rightarrow> node \<Rightarrow> world \<Rightarrow> (exn + unit) \<times> world" where
  "fill_image X tmp src_dir w =
     (case mkdtemp X ''extimg_'' w of
        (Inl e, w1) \<Rightarrow> (Inl e, w1)
      | (Inr mnt, w1) \<Rightarrow>
          (case mount_rw X (LoopFile tmp) mnt w1 of
             (Inl e, w2) \<Rightarrow> (Inl e, release_mount X mnt None w2)
           | (Inr u, w2) \<Rightarrow>
               (case populate X tmp mnt src_dir w2 of
                  (r, w3) \<Rightarrow> (r, release_mount X mnt (Some (LoopFile tmp)) w3))))"

text \<open>
  \<^verbatim>\<open>build_ext4_image\<close>: size the image, allocate it under the temporary name, format it,
  populate it, and rename it as the last statement.
\<close>

definition build_ext4_image ::
  "ext \<Rightarrow> node \<Rightarrow> string \<Rightarrow> string \<Rightarrow> world \<Rightarrow> (exn + unit) \<times> world" where
  "build_ext4_image X src_dir out_file label w =
     (case du_bytes X src_dir w of
        (data, w0) \<Rightarrow>
          (case tmp_name out_file of
             Inl e \<Rightarrow> (Inl e, w0)
           | Inr tmp \<Rightarrow>
               (case unlink_scratch X tmp w0 of
                  (Inl e, w1) \<Rightarrow> (Inl e, w1)
                | (Inr u1, w1) \<Rightarrow>
                    (case allocate X tmp (ext4_image_size data) w1 of
                       (Inl e, w2) \<Rightarrow> (Inl e, w2)
                     | (Inr u2, w2) \<Rightarrow>
                         (case make_ext4 X tmp (ext4_image_size data) label w2 of
                            (Inl e, w3) \<Rightarrow> (Inl e, w3)
                          | (Inr u3, w3) \<Rightarrow>
                              (case fill_image X tmp src_dir w3 of
                                 (Inl e, w4) \<Rightarrow> (Inl e, w4)
                               | (Inr u4, w4) \<Rightarrow> rename_scratch X tmp out_file w4))))))"

section \<open>The repack run\<close>

text \<open>
  \<^verbatim>\<open>file -b\<close> on a path below a mount directory. After the helper that mounted it has
  returned, the path is normally gone, and \<^verbatim>\<open>file\<close> prints its complaint, which carries
  the path, with exit status 0.
\<close>

definition file_b_at :: "world \<Rightarrow> string \<Rightarrow> string \<Rightarrow> string option" where
  "file_b_at w mnt nm =
     (case (case mounted w mnt of
              Some (Device d) \<Rightarrow> map_of (listing_of w d) nm
            | Some (LoopFile p) \<Rightarrow> None
            | None \<Rightarrow> None) of
        Some (File f) \<Rightarrow> file_b f
      | Some (Dir es) \<Rightarrow> Some ''directory''
      | None \<Rightarrow> Some (''cannot open '' @ joinpath mnt nm @ '' (No such file or directory)''))"

definition child_of :: "node \<Rightarrow> string \<Rightarrow> node option" where
  "child_of tree nm = (case tree of File f \<Rightarrow> None | Dir es \<Rightarrow> map_of es nm)"

text \<open>
  \<^verbatim>\<open>shutil.copy2(old_img, out_img)\<close>: refuses to copy a file onto itself; otherwise the
  output path holds a copy of the old image, or what an interrupted copy left there.
\<close>

definition copy_image :: "ext \<Rightarrow> string \<Rightarrow> string \<Rightarrow> world \<Rightarrow> (exn + unit) \<times> world" where
  "copy_image X old_img out_img w =
     (if old_img = out_img then (Inl SameFileError, w)
      else (case images w old_img of
              None \<Rightarrow> (Inl (FileNotFoundError old_img), w)
            | Some img \<Rightarrow>
                (case attempt X (Copy2 old_img out_img) True w of
                   (ok, w1) \<Rightarrow>
                     if ok then (Inr (), w1\<lparr>images := (images w1)(out_img \<mapsto> img)\<rparr>)
                     else (Inl (OSError ''copy2''),
                           w1\<lparr>images := (images w1)(out_img := torn_image X img)\<rparr>))))"

text \<open>
  \<^verbatim>\<open>losetup --find --show -P out_img\<close> (\<^verbatim>\<open>check=True\<close>), then
  \<^verbatim>\<open>if not loopdev: raise RuntimeError\<close>.
\<close>

definition losetup_attach :: "ext \<Rightarrow> string \<Rightarrow> world \<Rightarrow> (exn + string) \<times> world" where
  "losetup_attach X out_img w =
     (case attempt X (LosetupAttach out_img) (images w out_img \<noteq> None) w of
        (ok, w1) \<Rightarrow>
          if \<not> ok then (Inl (CalledProcessError ''losetup''), w1)
          else if losetup_show X = [] then (Inl (RuntimeError ''Failed to attach loop device for output image''), w1)
          else (Inr (losetup_show X), w1\<lparr>loopdevs := (loopdevs w1)(losetup_show X \<mapsto> out_img)\<rparr>))"

definition preferred_root_names :: "string list" where
  "preferred_root_names =
     [''rootfs-A.img'', ''rootfs.img'', ''rootfs.squashfs'', ''filesystem.squashfs'', ''arch.squashfs'']"

text \<open>
  Step 3 of \<^verbatim>\<open>repack\<close>, on partition 3. First the \<^verbatim>\<open>if ... else\<close> that builds the new
  inner image and settles its name; the probes \<^verbatim>\<open>is_squashfs(exists_path)\<close> and
  \<^verbatim>\<open>is_ext_image(exists_path)\<close> run after the detection has unmounted.
\<close>

definition build_root_inner ::
  "ext \<Rightarrow> node \<Rightarrow> string option \<Rightarrow> bool \<Rightarrow> world \<Rightarrow> string \<times> (exn + unit) \<times> world" where
  "build_root_inner X root_tree exists_path was_squashfs w =
     (if was_squashfs \<or>
         (case exists_path of
            None \<Rightarrow> False
          | Some nm \<Rightarrow> squashfs_in (file_b_at w ''detmnt_'' nm))
      then (case exists_path of None \<Rightarrow> ''rootfs.squashfs'' | Some nm \<Rightarrow> nm,
            build_squashfs X root_tree
              (case exists_path of None \<Rightarrow> ''rootfs.squashfs'' | Some nm \<Rightarrow> nm)
              (say ''    - Detected squashfs root; rebuilding squashfs ...'' w))
      else (case (case exists_path of
                    None \<Rightarrow> ''rootfs-A.img''
                  | Some nm \<Rightarrow>
                      if ext_in (file_b_at w ''detmnt_'' nm) then nm else ''rootfs-A.img'') of
              new_root_inner \<Rightarrow>
                (new_root_inner,
                 build_ext4_image X root_tree new_root_inner ''rootfs-A''
                   (say ''    - Using ext4 image for root; building ext4 ...'' w))))"

definition replace_rootfs :: "ext \<Rightarrow> node \<Rightarrow> dev \<Rightarrow> world \<Rightarrow> (exn + unit) \<times> world" where
  "replace_rootfs X root_tree p3 w =
     (case detect_existing_inner X p3 preferred_root_names w of
        (Inl e, w1) \<Rightarrow> (Inl e, w1)
      | (Inr (exists_path, was_squashfs), w1) \<Rightarrow>
          (case build_root_inner X root_tree exists_path was_squashfs w1 of
             (new_root_inner, Inl e, w2) \<Rightarrow> (Inl e, w2)
           | (new_root_inner, Inr u, w2) \<Rightarrow>
               (case exists_path of
                  Some nm \<Rightarrow>
                    replace_nested_image_in_partition X p3 preferred_root_names new_root_inner w2
                | None \<Rightarrow>
                    wipe_and_fill_partition_direct X p3 root_tree
                      (say ''    - Partition appears to be direct rootfs; replacing contents directly ...'' w2))))"

text \<open>
  Steps 4 and 5 of \<^verbatim>\<open>repack\<close> are the same statements for \<^verbatim>\<open>var\<close> on partition 4 and
  \<^verbatim>\<open>home\<close> on partition 5; \<open>replace_data_partition\<close> is their common \<^verbatim>\<open>else\<close> branch.
\<close>

definition replace_data_partition ::
  "ext \<Rightarrow> dev \<Rightarrow> string list \<Rightarrow> string \<Rightarrow> string \<Rightarrow> node \<Rightarrow> world \<Rightarrow> (exn + unit) \<times> world" where
  "replace_data_partition X part_dev preferred_names default_name label src w =
     (case detect_existing_inner X part_dev preferred_names w of
        (Inl e, w1) \<Rightarrow> (Inl e, w1)
      | (Inr (exists_path, sq), w1) \<Rightarrow>
          (case (case exists_path of None \<Rightarrow> default_name | Some nm \<Rightarrow> nm) of
             new_inner \<Rightarrow>
               (case build_ext4_image X src new_inner label w1 of
                  (Inl e, w2) \<Rightarrow> (Inl e, w2)
                | (Inr u, w2) \<Rightarrow>
                    (case exists_path of
                       Some nm \<Rightarrow>
                         replace_nested_image_in_partition X part_dev preferred_names new_inner w2
                     | None \<Rightarrow> wipe_and_fill_partition_direct X part_dev src w2))))"

definition replace_var :: "ext \<Rightarrow> node \<Rightarrow> dev \<Rightarrow> bool \<Rightarrow> world \<Rightarrow> (exn + unit) \<times> world" where
  "replace_var X root_tree p4 include_var w =
     (if include_var
      then (case child_of root_tree ''var'' of
              None \<Rightarrow>
                (Inr (), say ''    - WARNING: /var tree not found in root tree; skipping var'' w)
            | Some var_src \<Rightarrow>
                replace_data_partition X p4 [''var-A.img'', ''var.img''] ''var-A.img'' ''var-A'' var_src
                  (say ''[+] Replacing /var ...'' w))
      else (Inr (), say ''[+] Skipping /var (per --no-var)'' w))"

definition replace_home :: "ext \<Rightarrow> node \<Rightarrow> dev \<Rightarrow> bool \<Rightarrow> world \<Rightarrow> (exn + unit) \<times> world" where
  "replace_home X root_tree p5 include_home w =
     (if include_home
      then (case child_of root_tree ''home'' of
              None \<Rightarrow> (Inr (), say ''    - WARNING: /home tree not found; skipping home'' w)
            | Some home_src \<Rightarrow>
                replace_data_partition X p5 [''home.img''] ''home.img'' ''home'' home_src
                  (say ''[+] Replacing /home ...'' w))
      else (Inr (), say ''[+] Skipping /home (per --no-home)'' w))"

definition repack_partitions ::
  "ext \<Rightarrow> node \<Rightarrow> string \<Rightarrow> bool \<Rightarrow> bool \<Rightarrow> world \<Rightarrow> (exn + unit) \<times> world" where
  "repack_partitions X root_tree loopdev include_var include_home w =
     (case replace_rootfs X root_tree (Part loopdev 3) (say ''[+] Replacing rootfs ...'' w) of
        (Inl e, w1) \<Rightarrow> (Inl e, w1)
      | (Inr u1, w1) \<Rightarrow>
          (case replace_var X root_tree (Part loopdev 4) include_var w1 of
             (Inl e, w2) \<Rightarrow> (Inl e, w2)
           | (Inr u2, w2) \<Rightarrow>
               (case replace_home X root_tree (Part loopdev 5) include_home w2 of
                  (Inl e, w3) \<Rightarrow> (Inl e, w3)
                | (Inr u3, w3) \<Rightarrow>
                    (Inr (),
                     say ''[OK] Repack complete''
                       (snd (attempt X Sync True (say ''[+] Sync and detach ...'' w3)))))))"

text \<open>
  \<^verbatim>\<open>repack\<close>. The second component is what the registered \<^verbatim>\<open>cleanup\<close> closure sees at
  exit: the lists \<^verbatim>\<open>mounts\<close> (never appended to here) and \<^verbatim>\<open>loops\<close>, and \<^verbatim>\<open>workdir\<close>; it
  is \<open>None\<close> when the run ended before \<^verbatim>\<open>atexit.register\<close>.
\<close>

definition repack ::
  "ext \<Rightarrow> string \<Rightarrow> node option \<Rightarrow> string \<Rightarrow> bool \<Rightarrow> bool \<Rightarrow> world
     \<Rightarrow> (exn + unit) \<times> (string list \<times> string list \<times> string) option \<times> world" where
  "repack X old_img root_tree out_img include_var include_home w =
     (if images w old_img = None then (Inl (FileNotFoundError old_img), None, w)
      else (case root_tree of
              None \<Rightarrow> (Inl (FileNotFoundError ''root tree''), None, w)
            | Some tree \<Rightarrow>
                (case mkdtemp X ''repack_'' w of
                   (Inl e, w1) \<Rightarrow> (Inl e, None, w1)
                 | (Inr workdir, w1) \<Rightarrow>
                     (case copy_image X old_img out_img (say ''[+] Copying base image'' w1) of
                        (Inl e, w2) \<Rightarrow> (Inl e, Some ([], [], workdir), w2)
                      | (Inr u2, w2) \<Rightarrow>
                          (case losetup_attach X out_img w2 of
                             (Inl e, w3) \<Rightarrow> (Inl e, Some ([], [], workdir), w3)
                           | (Inr loopdev, w3) \<Rightarrow>
                               (case repack_partitions X tree loopdev include_var include_home w3 of
                                  (r, w4) \<Rightarrow> (r, Some ([], [loopdev], workdir), w4)))))))"

section \<open>Cleanup at exit\<close>

text \<open>
  \<^verbatim>\<open>cleanup\<close>, the same closure in \<^verbatim>\<open>repack_steamOS.py\<close>, \<^verbatim>\<open>grepack_steamOS.py\<close>,
  \<^verbatim>\<open>img2dsk.py\<close> and \<^verbatim>\<open>SuperimageExtractor.cleanup\<close>: each \<^verbatim>\<open>umount\<close> and each
  \<^verbatim>\<open>losetup -d\<close> runs with \<^verbatim>\<open>check=False\<close> inside \<^verbatim>\<open>try ... except Exception: pass\<close>, and
  the work directory is removed with \<^verbatim>\<open>ignore_errors=True\<close>.
\<close>

fun umount_each :: "ext \<Rightarrow> string list \<Rightarrow> world \<Rightarrow> world" where
  "umount_each X [] w = w"
| "umount_each X (m # ms) w = umount_each X ms (umount X m w)"

definition losetup_detach :: "ext \<Rightarrow> string \<Rightarrow> world \<Rightarrow> world" where
  "losetup_detach X ld w =
     (case attempt X (LosetupDetach ld) (loopdevs w ld \<noteq> None) w of
        (ok, w1) \<Rightarrow> if ok then w1\<lparr>loopdevs := (loopdevs w1)(ld := None)\<rparr> else w1)"

fun detach_each :: "ext \<Rightarrow> string list \<Rightarrow> world \<Rightarrow> world" where
  "detach_each X [] w = w"
| "detach_each X (ld # lds) w = detach_each X lds (losetup_detach X ld w)"

definition rmtree_workdir :: "ext \<Rightarrow> string \<Rightarrow> world \<Rightarrow> world" where
  "rmtree_workdir X workdir w =
     (case attempt X (Rmtree workdir) True w of
        (ok, w1) \<Rightarrow> if ok then w1\<lparr>scratch := Map.empty\<rparr> else w1)"

definition cleanup :: "ext \<Rightarrow> string list \<Rightarrow> string list \<Rightarrow> string \<Rightarrow> world \<Rightarrow> world" where
  "cleanup X mounts loops workdir w =
     rmtree_workdir X workdir (detach_each X (rev loops) (umount_each X (rev mounts) w))"

text \<open>The process: \<^verbatim>\<open>repack\<close>, then the registered \<^verbatim>\<open>cleanup\<close> at interpreter exit.\<close>

definition repack_process ::
  "ext \<Rightarrow> string \<Rightarrow> node option \<Rightarrow> string \<Rightarrow> bool \<Rightarrow> bool \<Rightarrow> world \<Rightarrow> (exn + unit) \<times> world" where
  "repack_process X old_img root_tree out_img include_var include_home w =
     (case repack X old_img root_tree out_img include_var include_home w of
        (r, None, w1) \<Rightarrow> (r, w1)
      | (r, Some (mounts, loops, workdir), w1) \<Rightarrow> (r, cleanup X mounts loops workdir w1))"

section \<open>Example inputs\<close>

definition ext4_blob :: fdata where
  "ext4_blob =
     \<lparr>st_size = 700, file_b = Some ''Linux rev 1.0 ext4 filesystem data, UUID=0'',
      content = ''old root''\<rparr>"

definition text_blob :: fdata where
  "text_blob = \<lparr>st_size = 10, file_b = Some ''ASCII text'', content = ''hello''\<rparr>"

text \<open>
  An environment in which no step fails (and \<^verbatim>\<open>statvfs\<close> reports no free space), a small
  source tree without a \<^verbatim>\<open>var\<close> subtree, and an image whose root and var partitions hold
  nested ext4 images while the home partition is a direct file system.
\<close>

definition calm :: ext where
  "calm =
     \<lparr>fails = (\<lambda>tr a. False),
      statvfs_free = (\<lambda>es. 0),
      du_sb = tree_bytes,
      squashfs_of = (\<lambda>n. \<lparr>st_size = 1, file_b = Some ''Squashfs filesystem'', content = ''sq''\<rparr>),
      mkfs_content = (\<lambda>n l. ''ext4''),
      tuned = (\<lambda>c. c),
      populated = (\<lambda>c n. c @ ''+tree''),
      emptied = (\<lambda>c. ''empty''),
      rsync_onto = (\<lambda>old new. new),
      rsync_partial = (\<lambda>src dst. dst),
      torn = (\<lambda>f. None),
      torn_image = (\<lambda>i. None),
      leftover = (\<lambda>es. es),
      dir_st_size = (\<lambda>es. 4096),
      losetup_show = ''/dev/loop0''\<rparr>"

definition demo_tree :: node where
  "demo_tree = Dir [(''etc'', Dir [(''hostname'', File text_blob)]), (''home'', Dir [])]"

definition demo_image :: image where
  "demo_image =
     [3 \<mapsto> [(''rootfs-A.img'', File ext4_blob)],
      4 \<mapsto> [(''var-A.img'', File ext4_blob)],
      5 \<mapsto> [(''lost+found'', Dir [])]]"

definition demo_world :: world where
  "demo_world =
     \<lparr>images = [''old.img'' \<mapsto> demo_image], loopdevs = Map.empty, mounted = Map.empty,
      scratch = Map.empty, trace = [], log = []\<rparr>"

section \<open>Frame conditions\<close>

text \<open>
  Three conditions on a run from \<open>w\<close> to \<open>w'\<close>, used to carry facts through the
  helpers: an action \<open>avoids\<close> a partition when it is not a mount of it; the run stays
  \<open>within\<close> the partitions \<open>K\<close> of the image behind loop device \<open>l\<close> when the loop
  devices are the same and every image file is the same, except that the image behind
  \<open>l\<close> may differ in the partitions of \<open>K\<close>; and \<open>frame\<close> adds that the trace has only
  grown, by actions that avoid the partition \<open>d0\<close>.
\<close>

definition avoids :: "dev \<Rightarrow> action \<Rightarrow> bool" where
  "avoids d a = (case a of Mount src mnt \<Rightarrow> src \<noteq> Device d | _ \<Rightarrow> True)"

definition within :: "string \<Rightarrow> nat set \<Rightarrow> world \<Rightarrow> world \<Rightarrow> bool" where
  "within l K w w' =
     (loopdevs w' = loopdevs w
      \<and> (\<forall>p. images w' p = images w p
             \<or> (loopdevs w l = Some p
                 \<and> (\<exists>img img'. images w p = Some img \<and> images w' p = Some img'
                       \<and> (\<forall>j. j \<notin> K \<longrightarrow> img' j = img j)))))"

definition frame :: "dev \<Rightarrow> string \<Rightarrow> nat set \<Rightarrow> world \<Rightarrow> world \<Rightarrow> bool" where
  "frame d0 l K w w' =
     (take (length (trace w)) (trace w') = trace w
      \<and> list_all (\<lambda>e. avoids d0 (fst e)) (new_events w w')
      \<and> within l K w w')"

text \<open>
  \<open>is_part_mount\<close> singles out the mounts of partitions; \<open>grows\<close> is the part of
  \<open>frame\<close> that speaks about the trace.
\<close>

definition is_part_mount :: "action \<Rightarrow> bool" where
  "is_part_mount a = (case a of Mount (Device d) mnt \<Rightarrow> True | _ \<Rightarrow> False)"

definition grows :: "dev \<Rightarrow> world \<Rightarrow> world \<Rightarrow> bool" where
  "grows d0 w w' =
     (take (length (trace w)) (trace w') = trace w
      \<and> list_all (\<lambda>e. avoids d0 (fst e)) (new_events w w'))"

text \<open>The same environment, except that every mount of a partition is refused.\<close>

definition mount_refusing :: ext where
  "mount_refusing = calm\<lparr>fails := (\<lambda>tr a. is_part_mount a)\<rparr>"

section \<open>Properties\<close>

lemma max_by_size_mem: "max_by_size b ps \<in> set (b # ps)"
  by (induction ps arbitrary: b) auto

subsection \<open>Sizing\<close>




subsection \<open>Probes of the example files\<close>

lemma text_blob_probes: "\<not> is_squashfs text_blob \<and> \<not> is_ext_image text_blob"
  by (simp add: is_squashfs_def is_ext_image_def squashfs_in_def ext_in_def text_blob_def
      lower_def lower_char_def)

lemma ext4_blob_probes: "\<not> is_squashfs ext4_blob \<and> is_ext_image ext4_blob"
  by (simp add: is_squashfs_def is_ext_image_def squashfs_in_def ext_in_def ext4_blob_def
      lower_def lower_char_def)

subsection \<open>Classification\<close>

text \<open>
  \<^bold>\<open>C1\<close>. The claim wants every candidate whose probe matches neither squashfs nor
  ext2/3/4 to be classified as a direct file system. \<^verbatim>\<open>detect_existing_inner\<close> does so
  for the largest-file fallback only: a regular file under a preferred name is returned
  from inside the \<^verbatim>\<open>for\<close> loop after \<^verbatim>\<open>is_squashfs\<close> alone, without \<^verbatim>\<open>is_ext_image\<close>. On
  a partition whose only file is a text file named \<^verbatim>\<open>rootfs-A.img\<close> the function returns
  that path with the flag unset, which \<^verbatim>\<open>repack\<close> takes for a nested ext image; the same
  text file under a name that is not preferred gives \<^verbatim>\<open>(None, False)\<close>.
\<close>

theorem detect_preferred_name_unprobed:
  "detect_in_listing [(''rootfs-A.img'', File text_blob)] preferred_root_names
     = (Some ''rootfs-A.img'', False)
   \<and> shape_of (detect_in_listing [(''rootfs-A.img'', File text_blob)] preferred_root_names)
     = NestedExtImage ''rootfs-A.img''
   \<and> \<not> is_squashfs text_blob \<and> \<not> is_ext_image text_blob
   \<and> detect_in_listing [(''notes.txt'', File text_blob)] preferred_root_names = (None, False)"
  using text_blob_probes
  by (simp add: detect_in_listing_def preferred_root_names_def)

subsection \<open>Target resolution\<close>

lemma no_regular_file_no_preferred:
  assumes "regular_files es = []"
  shows "first_preferred es ns = None"
proof (induction ns)
  case Nil
  show ?case by simp
next
  case (Cons n ns)
  have "map_of es n \<noteq> Some (File f)" for f
    using assms by (induction es rule: regular_files.induct) (auto split: if_splits)
  with Cons show ?case
    by (auto split: option.splits node.splits)
qed

text \<open>
  \<^bold>\<open>C6\<close>. Whenever the resolver returns a path for a listing and a list of preferred
  names, the target resolution of \<^verbatim>\<open>replace_nested_image_in_partition\<close> on the same
  listing and the same names selects that very file. On a listing without any regular
  file and with a non-empty list of names, the target is the first name of the list.
\<close>

theorem resolve_target_agrees:
  "(fst (detect_in_listing es names) = Some nm \<longrightarrow> resolve_target es names = Inr nm)
   \<and> (regular_files es = [] \<and> names \<noteq> [] \<longrightarrow> resolve_target es names = Inr (hd names))"
proof (intro conjI impI)
  assume "fst (detect_in_listing es names) = Some nm"
  then show "resolve_target es names = Inr nm"
    by (auto simp: detect_in_listing_def resolve_target_def Let_def
        split: option.splits list.splits if_splits prod.splits)
next
  assume h: "regular_files es = [] \<and> names \<noteq> []"
  then have "first_preferred es names = None"
    by (simp add: no_regular_file_no_preferred)
  with h show "resolve_target es names = Inr (hd names)"
    by (cases names) (simp_all add: resolve_target_def del: first_preferred.simps)
qed

theorem resolve_target_agrees_witness:
  "fst (detect_in_listing [(''junk'', File text_blob), (''rootfs.img'', File ext4_blob)]
          preferred_root_names) = Some ''rootfs.img''
   \<and> resolve_target [(''junk'', File text_blob), (''rootfs.img'', File ext4_blob)]
          preferred_root_names = Inr ''rootfs.img''
   \<and> regular_files [(''lost+found'', Dir [])] = [] \<and> preferred_root_names \<noteq> []
   \<and> resolve_target [(''lost+found'', Dir [])] preferred_root_names
        = Inr (hd preferred_root_names)"
proof -
  have a: "fst (detect_in_listing [(''junk'', File text_blob), (''rootfs.img'', File ext4_blob)]
                  preferred_root_names) = Some ''rootfs.img''"
    by (simp add: detect_in_listing_def preferred_root_names_def)
  have b: "regular_files [(''lost+found'', Dir [])] = [] \<and> preferred_root_names \<noteq> []"
    by (simp add: preferred_root_names_def)
  show ?thesis
    using a b
      resolve_target_agrees [of "[(''junk'', File text_blob), (''rootfs.img'', File ext4_blob)]"
        preferred_root_names "''rootfs.img''"]
      resolve_target_agrees [of "[(''lost+found'', Dir [])]" preferred_root_names "''rootfs.img''"]
    by simp
qed

subsection \<open>Frames of the helpers\<close>

lemma within_refl [simp]: "within l K w w"
  by (simp add: within_def)

lemma within_trans:
  assumes "within l K w w1" and "within l K w1 w2"
  shows "within l K w w2"
proof -
  have ld: "loopdevs w1 = loopdevs w" "loopdevs w2 = loopdevs w"
    using assms by (simp_all add: within_def)
  have "images w2 p = images w p
        \<or> (loopdevs w l = Some p
            \<and> (\<exists>img img'. images w p = Some img \<and> images w2 p = Some img'
                  \<and> (\<forall>j. j \<notin> K \<longrightarrow> img' j = img j)))" for p
  proof -
    from assms(1) have a: "images w1 p = images w p
        \<or> (loopdevs w l = Some p
            \<and> (\<exists>img img'. images w p = Some img \<and> images w1 p = Some img'
                  \<and> (\<forall>j. j \<notin> K \<longrightarrow> img' j = img j)))"
      by (simp add: within_def)
    from assms(2) ld have b: "images w2 p = images w1 p
        \<or> (loopdevs w l = Some p
            \<and> (\<exists>img img'. images w1 p = Some img \<and> images w2 p = Some img'
                  \<and> (\<forall>j. j \<notin> K \<longrightarrow> img' j = img j)))"
      by (simp add: within_def)
    from a b show ?thesis by (elim disjE conjE exE) auto
  qed
  with ld show ?thesis by (simp add: within_def)
qed

lemma frame_refl [simp]: "frame d0 l K w w"
  by (simp add: frame_def new_events_def)

lemma frame_trans: "frame d0 l K w w1 \<Longrightarrow> frame d0 l K w1 w2 \<Longrightarrow> frame d0 l K w w2"
proof -
  assume a: "frame d0 l K w w1" and b: "frame d0 l K w1 w2"
  from a obtain e1 where e1: "trace w1 = trace w @ e1" "list_all (\<lambda>e. avoids d0 (fst e)) e1"
    unfolding frame_def new_events_def by (metis append_take_drop_id)
  from b obtain e2 where e2: "trace w2 = trace w1 @ e2" "list_all (\<lambda>e. avoids d0 (fst e)) e2"
    unfolding frame_def new_events_def by (metis append_take_drop_id)
  from a b have "within l K w w2" by (auto simp: frame_def intro: within_trans)
  with e1 e2 show ?thesis by (simp add: frame_def new_events_def)
qed

lemma within_same:
  "images w2 = images w1 \<Longrightarrow> loopdevs w2 = loopdevs w1 \<Longrightarrow> within l K w w1 \<Longrightarrow> within l K w w2"
  by (simp add: within_def)

lemma frame_same:
  "images w2 = images w1 \<Longrightarrow> loopdevs w2 = loopdevs w1 \<Longrightarrow> trace w2 = trace w1 \<Longrightarrow>
   frame d0 l K w w1 \<Longrightarrow> frame d0 l K w w2"
  by (simp add: frame_def new_events_def within_same)

lemma frame_attempt: "avoids d0 a \<Longrightarrow> frame d0 l K w (snd (attempt X a p w))"
  by (simp add: frame_def attempt_def Let_def new_events_def within_same [OF _ _ within_refl])

lemma frame_set_part: "k \<in> K \<Longrightarrow> frame d0 l K w (set_part w (Part l k) es)"
  by (auto simp: frame_def new_events_def within_def set_part_def split: option.splits)

lemma frame_upd [simp]:
  "frame d0 l K w0 (w\<lparr>mounted := m\<rparr>) = frame d0 l K w0 w"
  "frame d0 l K w0 (w\<lparr>scratch := s\<rparr>) = frame d0 l K w0 w"
  "frame d0 l K w0 (w\<lparr>log := lg\<rparr>) = frame d0 l K w0 w"
  by (simp_all add: frame_def within_def new_events_def)

lemma frame_say [simp]: "frame d0 l K w0 (say m w) = frame d0 l K w0 w"
  by (simp add: say_def)

lemma frame_step: "avoids d0 a \<Longrightarrow> frame d0 l K w0 w \<Longrightarrow> frame d0 l K w0 (snd (attempt X a p w))"
  by (blast intro: frame_trans frame_attempt)

lemma frame_step': "attempt X a p w = (ok, w') \<Longrightarrow> avoids d0 a \<Longrightarrow> frame d0 l K w0 w \<Longrightarrow> frame d0 l K w0 w'"
  using frame_step [of d0 a l K w0 w X p] by simp

lemma frame_write: "k \<in> K \<Longrightarrow> frame d0 l K w0 w \<Longrightarrow> frame d0 l K w0 (set_part w (Part l k) es)"
  by (blast intro: frame_trans frame_set_part)

lemma avoids_simps [simp]:
  "avoids d0 (Mkdtemp p)" "avoids d0 (Umount p)" "avoids d0 (Rmtree p)" "avoids d0 (Unlink p)"
  "avoids d0 (Statvfs p)" "avoids d0 (Copy2 p q)" "avoids d0 (OsReplace p q)" "avoids d0 (Rename p q)"
  "avoids d0 (Truncate p n)" "avoids d0 Du" "avoids d0 (Mksquashfs p)" "avoids d0 (MkfsExt4 p q)"
  "avoids d0 (Tune2fs p)" "avoids d0 (Rsync p)" "avoids d0 Sync" "avoids d0 (LosetupAttach p)"
  "avoids d0 (LosetupDetach p)"
  "avoids d0 (Mount src q) = (src \<noteq> Device d0)"
  by (simp_all add: avoids_def)

lemma mkdtemp_frame: "mkdtemp X p w = (r, w') \<Longrightarrow> frame d0 l K w w'"
  by (auto simp: mkdtemp_def split: prod.splits if_splits intro: frame_step')

lemma mount_rw_frame:
  "mount_rw X src mnt w = (r, w') \<Longrightarrow> src \<noteq> Device d0 \<Longrightarrow> frame d0 l K w w'"
  using frame_attempt [of d0 "Mount src mnt" l K w X "mountable w src"]
  by (auto simp: mount_rw_def split_beta split: if_splits)

lemma umount_frame: "frame d0 l K w0 w \<Longrightarrow> frame d0 l K w0 (umount X mnt w)"
  by (auto simp: umount_def split: prod.splits if_splits intro: frame_step')

lemma rmtree_mounted_frame:
  "(\<forall>d. src = Device d \<longrightarrow> (\<exists>k\<in>K. d = Part l k)) \<Longrightarrow> frame d0 l K w0 w \<Longrightarrow>
   frame d0 l K w0 (rmtree_mounted X src ok w)"
  by (cases src) (auto simp: rmtree_mounted_def split: option.splits intro: frame_write)

lemma release_mount_frame:
  "(\<forall>d. held = Some (Device d) \<longrightarrow> (\<exists>k\<in>K. d = Part l k)) \<Longrightarrow> frame d0 l K w0 w \<Longrightarrow>
   frame d0 l K w0 (release_mount X mnt held w)"
  by (auto simp: release_mount_def split: prod.splits option.splits
      intro!: rmtree_mounted_frame intro: frame_step' umount_frame)

lemma check_free_space_frame:
  "check_free_space X es mnt target new_inner w = (r, w') \<Longrightarrow> frame d0 l K w w'"
  by (auto simp: check_free_space_def Let_def split: prod.splits option.splits if_splits intro: frame_step')

lemma unlink_stale_frame: "unlink_stale X mnt tmp es w = (r, es', w') \<Longrightarrow> frame d0 l K w w'"
  by (auto simp: unlink_stale_def split: prod.splits option.splits if_splits intro: frame_step')

lemma copy_in_frame: "copy_in X mnt new_inner tmp es w = (r, es', w') \<Longrightarrow> frame d0 l K w w'"
  by (auto simp: copy_in_def split: prod.splits option.splits if_splits intro: frame_step')

lemma os_replace_frame: "os_replace X mnt tmp target es w = (r, es', w') \<Longrightarrow> frame d0 l K w w'"
  by (auto simp: os_replace_def split: prod.splits option.splits if_splits intro: frame_step' frame_step)

lemma place_nested_frame:
  "place_nested X mnt names new_inner es w = (r, es', w') \<Longrightarrow> frame d0 l K w w'"
  apply (clarsimp simp: place_nested_def split: sum.splits prod.splits)
      apply (auto dest!: check_free_space_frame [where ?d0.0=d0 and l=l and K=K]
        unlink_stale_frame [where ?d0.0=d0 and l=l and K=K]
        copy_in_frame [where ?d0.0=d0 and l=l and K=K]
        os_replace_frame [where ?d0.0=d0 and l=l and K=K]
        intro!: frame_step intro: frame_trans)
  done

lemma replace_nested_frame_part:
  "replace_nested_image_in_partition X (Part l k) names new_inner w = (r, w') \<Longrightarrow>
   Part l k \<noteq> d0 \<Longrightarrow> k \<in> K \<Longrightarrow> frame d0 l K w w'"
  apply (clarsimp simp: replace_nested_image_in_partition_def split: sum.splits prod.splits)
    apply (auto dest!: mkdtemp_frame [where ?d0.0=d0 and l=l and K=K]
        mount_rw_frame [where ?d0.0=d0 and l=l and K=K]
        place_nested_frame [where ?d0.0=d0 and l=l and K=K]
        intro!: release_mount_frame frame_write intro: frame_trans)
  done

lemma wipe_children_frame:
  "wipe_children X mnt cs es w = (es', w') \<Longrightarrow> frame d0 l K w0 w \<Longrightarrow> frame d0 l K w0 w'"
proof (induction X mnt cs es w arbitrary: es' w' rule: wipe_children.induct)
  case (1 X mnt es w)
  then show ?case by simp
next
  case (2 X mnt nm child rest es w)
  show ?case
  proof (cases "nm = ''lost+found''")
    case True
    with 2 show ?thesis by simp
  next
    case False
    show ?thesis
    proof (cases child)
      case (File f)
      obtain ok w1 where a: "attempt X (Unlink (joinpath mnt nm)) True w = (ok, w1)"
        by (cases "attempt X (Unlink (joinpath mnt nm)) True w")
      then have "frame d0 l K w0 w1"
        using "2.prems"(2) by (auto intro: frame_step')
      with 2 False File a show ?thesis by simp
    next
      case (Dir sub)
      obtain ok w1 where a: "attempt X (Rmtree (joinpath mnt nm)) True w = (ok, w1)"
        by (cases "attempt X (Rmtree (joinpath mnt nm)) True w")
      then have "frame d0 l K w0 w1"
        using "2.prems"(2) by (auto intro: frame_step')
      with 2 False Dir a show ?thesis by simp
    qed
  qed
qed

lemma fill_direct_frame:
  "fill_direct X mnt src_dir es w = (r, es', w') \<Longrightarrow> frame d0 l K w w'"
  apply (clarsimp simp: fill_direct_def split: prod.splits node.splits if_splits)
    apply (auto dest!: wipe_children_frame [where ?d0.0=d0 and l=l and K=K and ?w0.0=w]
      intro!: frame_step intro: frame_step')
  done

lemma wipe_and_fill_frame_part:
  "wipe_and_fill_partition_direct X (Part l k) src_dir w = (r, w') \<Longrightarrow>
   Part l k \<noteq> d0 \<Longrightarrow> k \<in> K \<Longrightarrow> frame d0 l K w w'"
  apply (clarsimp simp: wipe_and_fill_partition_direct_def split: sum.splits prod.splits)
    apply (auto dest!: mkdtemp_frame [where ?d0.0=d0 and l=l and K=K]
        mount_rw_frame [where ?d0.0=d0 and l=l and K=K]
        fill_direct_frame [where ?d0.0=d0 and l=l and K=K]
        intro!: release_mount_frame frame_write intro: frame_trans)
  done

lemma detect_frame_part:
  "detect_existing_inner X (Part l k) names w = (r, w') \<Longrightarrow>
   Part l k \<noteq> d0 \<Longrightarrow> k \<in> K \<Longrightarrow> frame d0 l K w w'"
  apply (clarsimp simp: detect_existing_inner_def split: sum.splits prod.splits)
    apply (auto dest!: mkdtemp_frame [where ?d0.0=d0 and l=l and K=K]
        mount_rw_frame [where ?d0.0=d0 and l=l and K=K]
        intro!: release_mount_frame intro: frame_trans)
  done

subsection \<open>Frames of the builders and of the repack steps\<close>

lemma frame_attempt_eq: "attempt X a p w = (ok, w') \<Longrightarrow> avoids d0 a \<Longrightarrow> frame d0 l K w w'"
  using frame_attempt [of d0 a l K w X p] by simp

lemmas fr = frame_attempt_eq

lemma frame_upd_left [simp]:
  "frame d0 l K (w\<lparr>mounted := m\<rparr>) w' = frame d0 l K w w'"
  "frame d0 l K (w\<lparr>scratch := s\<rparr>) w' = frame d0 l K w w'"
  "frame d0 l K (w\<lparr>log := lg\<rparr>) w' = frame d0 l K w w'"
  by (simp_all add: frame_def within_def new_events_def)

lemma frame_say_left [simp]: "frame d0 l K (say m w) w' = frame d0 l K w w'"
  by (simp add: say_def)

lemma du_bytes_frame: "du_bytes X src w = (n, w') \<Longrightarrow> frame d0 l K w w'"
  by (auto simp: du_bytes_def split: prod.splits dest!: fr [where ?d0.0=d0 and l=l and K=K])

lemma unlink_scratch_frame: "unlink_scratch X tmp w = (r, w') \<Longrightarrow> frame d0 l K w w'"
  by (auto simp: unlink_scratch_def split: prod.splits option.splits if_splits
      dest!: fr [where ?d0.0=d0 and l=l and K=K])

lemma rename_scratch_frame: "rename_scratch X tmp out w = (r, w') \<Longrightarrow> frame d0 l K w w'"
  by (auto simp: rename_scratch_def split: prod.splits if_splits
      dest!: fr [where ?d0.0=d0 and l=l and K=K])

lemma populate_frame: "populate X tmp mnt src w = (r, w') \<Longrightarrow> frame d0 l K w w'"
  by (auto simp: populate_def split: prod.splits option.splits if_splits
      dest!: fr [where ?d0.0=d0 and l=l and K=K])

lemma tune_frame [simp]: "frame d0 l K w0 (tune X tmp w) = frame d0 l K w0 w"
  by (simp add: tune_def split: option.splits)

lemma allocate_frame: "allocate X tmp n w = (r, w') \<Longrightarrow> frame d0 l K w w'"
  by (auto simp: allocate_def split: prod.splits if_splits
      dest!: fr [where ?d0.0=d0 and l=l and K=K])

lemma make_ext4_frame: "make_ext4 X tmp n label w = (r, w') \<Longrightarrow> frame d0 l K w w'"
  by (auto simp: make_ext4_def split: prod.splits if_splits
      dest!: fr [where ?d0.0=d0 and l=l and K=K] intro: frame_trans)

lemma fill_image_frame: "fill_image X tmp src w = (r, w') \<Longrightarrow> frame d0 l K w w'"
  apply (clarsimp simp: fill_image_def split: sum.splits prod.splits)
    apply (auto dest!: mkdtemp_frame [where ?d0.0=d0 and l=l and K=K]
      mount_rw_frame [where ?d0.0=d0 and l=l and K=K]
      populate_frame [where ?d0.0=d0 and l=l and K=K]
      intro!: release_mount_frame intro: frame_trans)
  done

lemma build_squashfs_frame: "build_squashfs X src out w = (r, w') \<Longrightarrow> frame d0 l K w w'"
  apply (clarsimp simp: build_squashfs_def split: sum.splits prod.splits if_splits)
    apply (auto dest!: unlink_scratch_frame [where ?d0.0=d0 and l=l and K=K]
      rename_scratch_frame [where ?d0.0=d0 and l=l and K=K]
      fr [where ?d0.0=d0 and l=l and K=K])
    apply (blast intro: frame_trans)+
  done

lemma build_ext4_image_frame: "build_ext4_image X src out label w = (r, w') \<Longrightarrow> frame d0 l K w w'"
  apply (clarsimp simp: build_ext4_image_def split: sum.splits prod.splits)
        apply (auto dest!: unlink_scratch_frame [where ?d0.0=d0 and l=l and K=K]
      du_bytes_frame [where ?d0.0=d0 and l=l and K=K]
      allocate_frame [where ?d0.0=d0 and l=l and K=K]
      make_ext4_frame [where ?d0.0=d0 and l=l and K=K]
      fill_image_frame [where ?d0.0=d0 and l=l and K=K]
      rename_scratch_frame [where ?d0.0=d0 and l=l and K=K])
        apply (blast intro: frame_trans)+
  done

lemma build_root_inner_frame:
  "build_root_inner X tree ex sq w = (nm, r, w') \<Longrightarrow> frame d0 l K w w'"
  by (auto simp: build_root_inner_def split: if_splits option.splits
      dest!: build_squashfs_frame [where ?d0.0=d0 and l=l and K=K]
        build_ext4_image_frame [where ?d0.0=d0 and l=l and K=K])

lemma replace_rootfs_frame:
  "replace_rootfs X tree (Part l k) w = (r, w') \<Longrightarrow> Part l k \<noteq> d0 \<Longrightarrow> k \<in> K \<Longrightarrow>
   frame d0 l K w w'"
  apply (clarsimp simp: replace_rootfs_def split: sum.splits prod.splits option.splits)
    apply (auto dest!: detect_frame_part [where ?d0.0=d0 and K=K]
      build_root_inner_frame [where ?d0.0=d0 and l=l and K=K]
      replace_nested_frame_part [where ?d0.0=d0 and K=K]
      wipe_and_fill_frame_part [where ?d0.0=d0 and K=K])
    apply (blast intro: frame_trans)+
  done

lemma replace_data_partition_frame:
  "replace_data_partition X (Part l k) names dflt label src w = (r, w') \<Longrightarrow>
   Part l k \<noteq> d0 \<Longrightarrow> k \<in> K \<Longrightarrow> frame d0 l K w w'"
  apply (clarsimp simp: replace_data_partition_def split: sum.splits prod.splits option.splits)
     apply (auto dest!: detect_frame_part [where ?d0.0=d0 and K=K]
      build_ext4_image_frame [where ?d0.0=d0 and l=l and K=K]
      replace_nested_frame_part [where ?d0.0=d0 and K=K]
      wipe_and_fill_frame_part [where ?d0.0=d0 and K=K])
    apply (blast intro: frame_trans)+
  done

lemma replace_var_frame:
  "replace_var X tree (Part l k) iv w = (r, w') \<Longrightarrow>
   (\<not> iv \<or> child_of tree ''var'' = None) \<or> (Part l k \<noteq> d0 \<and> k \<in> K) \<Longrightarrow> frame d0 l K w w'"
  by (auto simp: replace_var_def split: if_splits option.splits
      dest!: replace_data_partition_frame [where ?d0.0=d0 and K=K])

lemma replace_home_frame:
  "replace_home X tree (Part l k) ih w = (r, w') \<Longrightarrow>
   (\<not> ih \<or> child_of tree ''home'' = None) \<or> (Part l k \<noteq> d0 \<and> k \<in> K) \<Longrightarrow> frame d0 l K w w'"
  by (auto simp: replace_home_def split: if_splits option.splits
      dest!: replace_data_partition_frame [where ?d0.0=d0 and K=K])

lemma repack_partitions_frame:
  assumes "repack_partitions X tree l iv ih w = (r, w')"
    and "Part l 3 \<noteq> d0" and "3 \<in> K"
    and "(\<not> iv \<or> child_of tree ''var'' = None) \<or> (Part l 4 \<noteq> d0 \<and> 4 \<in> K)"
    and "(\<not> ih \<or> child_of tree ''home'' = None) \<or> (Part l 5 \<noteq> d0 \<and> 5 \<in> K)"
  shows "frame d0 l K w w'"
proof -
  obtain r1 w1 where s1: "replace_rootfs X tree (Part l 3) (say ''[+] Replacing rootfs ...'' w) = (r1, w1)"
    by (cases "replace_rootfs X tree (Part l 3) (say ''[+] Replacing rootfs ...'' w)")
  from replace_rootfs_frame [OF s1 assms(2,3)] have f1: "frame d0 l K w w1" by simp
  show ?thesis
  proof (cases r1)
    case (Inl e)
    with assms(1) s1 f1 show ?thesis by (simp add: repack_partitions_def)
  next
    case (Inr u1)
    obtain r2 w2 where s2: "replace_var X tree (Part l 4) iv w1 = (r2, w2)"
      by (cases "replace_var X tree (Part l 4) iv w1")
    from replace_var_frame [OF s2 assms(4)] f1 have f2: "frame d0 l K w w2"
      by (blast intro: frame_trans)
    show ?thesis
    proof (cases r2)
      case (Inl e)
      with assms(1) s1 s2 Inr f2 show ?thesis by (simp add: repack_partitions_def)
    next
      case u2: (Inr u2)
      obtain r3 w3 where s3: "replace_home X tree (Part l 5) ih w2 = (r3, w3)"
        by (cases "replace_home X tree (Part l 5) ih w2")
      from replace_home_frame [OF s3 assms(5)] f2 have f3: "frame d0 l K w w3"
        by (blast intro: frame_trans)
      show ?thesis
      proof (cases r3)
        case (Inl e)
        with assms(1) s1 s2 s3 Inr u2 f3 show ?thesis by (simp add: repack_partitions_def)
      next
        case u3: (Inr u3)
        with assms(1) s1 s2 s3 Inr u2 f3 show ?thesis
          by (auto simp: repack_partitions_def intro!: frame_step)
      qed
    qed
  qed
qed

subsection \<open>The whole run\<close>

lemma frame_grows: "frame d0 l K w w' \<Longrightarrow> grows d0 w w'"
  by (simp add: frame_def grows_def)

lemma grows_refl [simp]: "grows d0 w w"
  by (simp add: grows_def new_events_def)

lemma growsD: "grows d0 w w' \<Longrightarrow> \<exists>evs. trace w' = trace w @ evs \<and> list_all (\<lambda>e. avoids d0 (fst e)) evs"
  unfolding grows_def new_events_def by (metis append_take_drop_id)

lemma growsI: "trace w' = trace w @ evs \<Longrightarrow> list_all (\<lambda>e. avoids d0 (fst e)) evs \<Longrightarrow> grows d0 w w'"
  by (simp add: grows_def new_events_def)

lemma grows_trans: "grows d0 w w1 \<Longrightarrow> grows d0 w1 w2 \<Longrightarrow> grows d0 w w2"
  by (auto dest!: growsD intro!: growsI [where evs = "_ @ _"])

lemma grows_attempt: "avoids d0 a \<Longrightarrow> grows d0 w0 w \<Longrightarrow> grows d0 w0 (snd (attempt X a p w))"
  by (rule grows_trans [of _ _ w]) (auto simp: attempt_def Let_def intro!: growsI)

lemma grows_upd [simp]:
  "grows d0 w0 (w\<lparr>mounted := m\<rparr>) = grows d0 w0 w"
  "grows d0 w0 (w\<lparr>scratch := s\<rparr>) = grows d0 w0 w"
  "grows d0 w0 (w\<lparr>loopdevs := ld\<rparr>) = grows d0 w0 w"
  by (simp_all add: grows_def new_events_def)

lemma repack_cases:
  assumes "repack X old root out iv ih w = (r, tracked, w')"
  shows "(r \<noteq> Inr () \<and> images w' old = images w old \<and> loopdevs w' = loopdevs w
            \<and> (\<forall>d0. grows d0 w w'))
         \<or> (\<exists>tree w3 img. root = Some tree \<and> old \<noteq> out \<and> images w old = Some img
               \<and> images w3 = (images w)(out \<mapsto> img)
               \<and> loopdevs w3 = (loopdevs w)(losetup_show X \<mapsto> out)
               \<and> trace w3 = trace w @ [(Mkdtemp ''repack_'', True), (Copy2 old out, True),
                                         (LosetupAttach out, True)]
               \<and> repack_partitions X tree (losetup_show X) iv ih w3 = (r, w')
               \<and> tracked = Some ([], [losetup_show X], ''repack_''))"
  using assms
  by (auto simp: repack_def mkdtemp_def copy_image_def losetup_attach_def attempt_def Let_def
      say_def new_events_def grows_def
      split: option.splits if_splits prod.splits sum.splits)

lemma no_part_mount:
  assumes "\<And>d0. grows d0 w w'"
  shows "\<not> list_ex (\<lambda>e. is_part_mount (fst e)) (new_events w w')"
proof
  assume "list_ex (\<lambda>e. is_part_mount (fst e)) (new_events w w')"
  then obtain a ok where m: "(a, ok) \<in> set (new_events w w')" "is_part_mount a"
    by (auto simp: list_ex_iff)
  then obtain d mnt where "a = Mount (Device d) mnt"
    by (auto simp: is_part_mount_def split: action.splits msrc.splits)
  with assms [of d] m show False
    by (auto simp: grows_def list_all_iff)
qed

lemma umount_grows: "grows d0 w0 w \<Longrightarrow> grows d0 w0 (umount X m w)"
  by (auto simp: umount_def split_beta intro: grows_attempt)

lemma umount_images [simp]: "images (umount X m w) = images w"
  by (simp add: umount_def attempt_def Let_def)

lemma umount_each_grows: "grows d0 w0 w \<Longrightarrow> grows d0 w0 (umount_each X ms w)"
  by (induction ms arbitrary: w) (auto intro: umount_grows)

lemma umount_each_images [simp]: "images (umount_each X ms w) = images w"
  by (induction ms arbitrary: w) auto

lemma losetup_detach_grows: "grows d0 w0 w \<Longrightarrow> grows d0 w0 (losetup_detach X ld w)"
  by (auto simp: losetup_detach_def split_beta intro: grows_attempt)

lemma losetup_detach_images [simp]: "images (losetup_detach X ld w) = images w"
  by (simp add: losetup_detach_def attempt_def Let_def)

lemma detach_each_grows: "grows d0 w0 w \<Longrightarrow> grows d0 w0 (detach_each X lds w)"
  by (induction lds arbitrary: w) (auto intro: losetup_detach_grows)

lemma detach_each_images [simp]: "images (detach_each X lds w) = images w"
  by (induction lds arbitrary: w) auto

lemma rmtree_workdir_grows: "grows d0 w0 w \<Longrightarrow> grows d0 w0 (rmtree_workdir X wd w)"
  by (auto simp: rmtree_workdir_def split_beta intro: grows_attempt)

lemma rmtree_workdir_images [simp]: "images (rmtree_workdir X wd w) = images w"
  by (simp add: rmtree_workdir_def attempt_def Let_def)

lemma cleanup_grows: "grows d0 w0 w \<Longrightarrow> grows d0 w0 (cleanup X ms ls wd w)"
  by (simp add: cleanup_def rmtree_workdir_grows detach_each_grows umount_each_grows)

lemma cleanup_images [simp]: "images (cleanup X ms ls wd w) = images w"
  by (simp add: cleanup_def)

lemma within_other_image:
  "within l K w w' \<Longrightarrow> loopdevs w l = Some out \<Longrightarrow> p \<noteq> out \<Longrightarrow> images w' p = images w p"
  by (auto simp: within_def)



lemmas refusal_defs =
  repack_process_def repack_def repack_partitions_def replace_rootfs_def copy_image_def
  losetup_attach_def detect_existing_inner_def mkdtemp_def mount_rw_def umount_def umount_ok_def
  release_mount_def attempt_def mountable_def part_of_def say_def cleanup_def
  rmtree_workdir_def losetup_detach_def preferred_root_names_def new_events_def
  is_part_mount_def avoids_def

lemma refused_run:
  "repack_process mount_refusing ''old.img'' (Some demo_tree) ''new.img'' True True demo_world
     = (Inl (CalledProcessError ''mount''),
        \<lparr>images = [''old.img'' \<mapsto> demo_image, ''new.img'' \<mapsto> demo_image], loopdevs = Map.empty,
         mounted = Map.empty, scratch = Map.empty,
         trace = [(Mkdtemp ''repack_'', True), (Copy2 ''old.img'' ''new.img'', True),
                  (LosetupAttach ''new.img'', True), (Mkdtemp ''detmnt_'', True),
                  (Mount (Device (Part ''/dev/loop0'' 3)) ''detmnt_'', False),
                  (Umount ''detmnt_'', False), (Rmtree ''detmnt_'', True),
                  (LosetupDetach ''/dev/loop0'', True), (Rmtree ''repack_'', True)],
         log = [''[+] Copying base image'', ''[+] Replacing rootfs ...'']\<rparr>)"
  by (simp add: refusal_defs mount_refusing_def calm_def demo_world_def demo_image_def fun_upd_twist)

text \<open>
  \<^bold>\<open>C10\<close>. \<^verbatim>\<open>repack\<close> never writes to the old superimage. For every run of the process
  (\<^verbatim>\<open>repack\<close> followed by the registered \<^verbatim>\<open>cleanup\<close>), whatever fails and whatever the
  outcome: the image file at the old path is afterwards what it was before; every mount
  of a partition during the run is a mount of partition 3, 4 or 5 of the loop device
  that \<^verbatim>\<open>losetup\<close> returned for the output path; and if any partition was mounted at all,
  then the run began with the successful copy of the old image to a different output
  path and the successful attachment of the loop device to that output path.
\<close>

theorem repack_old_image_untouched:
  assumes run: "repack_process X old root out iv ih w = (r, w')"
  shows "images w' old = images w old
     \<and> (\<forall>d0. d0 \<notin> {Part (losetup_show X) 3, Part (losetup_show X) 4, Part (losetup_show X) 5}
            \<longrightarrow> list_all (\<lambda>e. avoids d0 (fst e)) (new_events w w'))
     \<and> (list_ex (\<lambda>e. is_part_mount (fst e)) (new_events w w') \<longrightarrow>
            old \<noteq> out
            \<and> take 3 (new_events w w')
                = [(Mkdtemp ''repack_'', True), (Copy2 old out, True), (LosetupAttach out, True)])"
proof -
  obtain r1 tracked w1 where rp: "repack X old root out iv ih w = (r1, tracked, w1)"
    by (cases "repack X old root out iv ih w") auto
  define fin where "fin = (\<lambda>w1. case tracked of None \<Rightarrow> w1 | Some (ms, ls, wd) \<Rightarrow> cleanup X ms ls wd w1)"
  have w': "w' = fin w1"
    using run rp by (auto simp: repack_process_def fin_def split: option.splits)
  have fin_images: "images (fin v) = images v" for v
    by (simp add: fin_def split: option.splits)
  have fin_grows: "grows d0 v0 v \<Longrightarrow> grows d0 v0 (fin v)" for d0 v0 v
    by (auto simp: fin_def cleanup_grows split: option.splits)
  from repack_cases [OF rp] show ?thesis
  proof (elim disjE conjE exE)
    assume early: "images w1 old = images w old" "\<forall>d0. grows d0 w w1"
    have g': "grows d0 w w'" for d0
      unfolding w' by (rule fin_grows) (use early(2) in blast)
    from no_part_mount [of w w'] g' early(1) show ?thesis
      by (auto simp: w' fin_images grows_def)
  next
    fix tree w3 img
    assume late: "root = Some tree" "old \<noteq> out" "images w old = Some img"
      "images w3 = (images w)(out \<mapsto> img)"
      "loopdevs w3 = (loopdevs w)(losetup_show X \<mapsto> out)"
      "trace w3 = trace w @ [(Mkdtemp ''repack_'', True), (Copy2 old out, True), (LosetupAttach out, True)]"
      "repack_partitions X tree (losetup_show X) iv ih w3 = (r1, w1)"
    have fr: "frame d0 (losetup_show X) {3, 4, 5} w3 w1"
      if "d0 \<notin> {Part (losetup_show X) 3, Part (losetup_show X) 4, Part (losetup_show X) 5}" for d0
      using that by (intro repack_partitions_frame [OF late(7)]) auto
    have fr0: "frame (Part [] 0) (losetup_show X) {3, 4, 5} w3 w1"
      by (rule fr) simp
    then have "within (losetup_show X) {3, 4, 5} w3 w1" by (simp add: frame_def)
    then have "images w1 old = images w3 old"
      using late(2,5) by (auto dest: within_other_image)
    then have i: "images w' old = images w old"
      using late(2,4) by (simp add: w' fin_images)
    have g3: "grows d0 w w3" for d0
      using late(6) by (auto intro!: growsI)
    have g: "grows d0 w w'"
      if "d0 \<notin> {Part (losetup_show X) 3, Part (losetup_show X) 4, Part (losetup_show X) 5}" for d0
      unfolding w' using fr [OF that] g3 [of d0] by (blast intro: fin_grows grows_trans frame_grows)
    obtain evs where "trace w' = trace w3 @ evs"
      using growsD [OF fin_grows [OF frame_grows [OF fr0]]]
      unfolding w' by blast
    then have "take 3 (new_events w w') = [(Mkdtemp ''repack_'', True), (Copy2 old out, True), (LosetupAttach out, True)]"
      using late(6) by (simp add: new_events_def)
    with i g late(2) show ?thesis
      by (auto simp: grows_def)
  qed
qed

theorem repack_old_image_untouched_witness:
  "images (snd (repack_process mount_refusing ''old.img'' (Some demo_tree) ''new.img'' True True demo_world))
      ''old.img'' = images demo_world ''old.img''
   \<and> list_all (\<lambda>e. avoids (Part ''/dev/loop0'' 1) (fst e))
        (new_events demo_world
           (snd (repack_process mount_refusing ''old.img'' (Some demo_tree) ''new.img'' True True demo_world)))
   \<and> list_ex (\<lambda>e. is_part_mount (fst e))
        (new_events demo_world
           (snd (repack_process mount_refusing ''old.img'' (Some demo_tree) ''new.img'' True True demo_world)))
   \<and> ''old.img'' \<noteq> ''new.img''
   \<and> take 3 (new_events demo_world
           (snd (repack_process mount_refusing ''old.img'' (Some demo_tree) ''new.img'' True True demo_world)))
       = [(Mkdtemp ''repack_'', True), (Copy2 ''old.img'' ''new.img'', True),
          (LosetupAttach ''new.img'', True)]"
proof -
  have t0: "trace demo_world = []"
    by (simp add: demo_world_def)
  have mounts: "list_ex (\<lambda>e. is_part_mount (fst e))
        (new_events demo_world
           (snd (repack_process mount_refusing ''old.img'' (Some demo_tree) ''new.img'' True True demo_world)))"
    by (simp add: refused_run new_events_def t0 is_part_mount_def)
  show ?thesis
    using mounts
      repack_old_image_untouched [of mount_refusing "''old.img''" "Some demo_tree" "''new.img''" True True demo_world
        "fst (repack_process mount_refusing ''old.img'' (Some demo_tree) ''new.img'' True True demo_world)"
        "snd (repack_process mount_refusing ''old.img'' (Some demo_tree) ''new.img'' True True demo_world)"]
    by (simp add: mount_refusing_def calm_def)
qed

subsection \<open>Skipped partitions\<close>










end
